theory Spec2Isabelle
  imports Complex_Main
begin

section \<open>JavaScript values\<close>

text \<open>
  A JavaScript \<^verbatim>\<open>number\<close> is a double. The development needs of a number only
  whether it is NaN, infinite, or a finite value and which one; \<open>Fin q\<close> stands for the
  finite double nearest to the rational \<open>q\<close>. The two zeros of a double are one value
  here: \<^verbatim>\<open>-0 === 0\<close> holds in JavaScript, and the code never divides by a coordinate.
\<close>

datatype jsnum = NaN | PosInf | NegInf | Fin rat

text \<open>A payload field typed \<^verbatim>\<open>string | number\<close>; an optional field is an \<open>option\<close>.\<close>

datatype jsval = Str string | Num jsnum

text \<open>\<^verbatim>\<open>isNaN(x)\<close> on a number.\<close>

definition isNaN :: "jsnum \<Rightarrow> bool" where
  "isNaN x = (x = NaN)"

text \<open>Truthiness of a number: every number but 0 and NaN.\<close>

definition truthy :: "jsnum \<Rightarrow> bool" where
  "truthy x = (x \<noteq> NaN \<and> x \<noteq> Fin 0)"

subsection \<open>parseFloat\<close>

text \<open>
  \<^verbatim>\<open>parseFloat\<close> of ECMAScript: leading white space is skipped, then the longest prefix
  that is a decimal literal (sign, \<^verbatim>\<open>Infinity\<close> or digits with an optional fraction and
  an optional exponent) is read, and NaN is returned when there is none. A \<open>string\<close> is a
  list of bytes holding the text in UTF-8, so a white space character or line terminator of
  ECMAScript is one byte (tab, line feed, vertical tab, form feed, carriage return, space),
  two (U+00A0) or three (U+1680, U+2000 to U+200A, U+2028, U+2029, U+202F, U+205F, U+3000,
  U+FEFF).
\<close>

definition isWhiteSpace :: "char \<Rightarrow> bool" where
  "isWhiteSpace c = (c \<in> set [CHR 0x09, CHR 0x0A, CHR 0x0B, CHR 0x0C, CHR 0x0D, CHR '' ''])"

definition wideWhiteSpace :: "string list" where
  "wideWhiteSpace =
     [[CHR 0xE1, CHR 0x9A, CHR 0x80],
      [CHR 0xE2, CHR 0x80, CHR 0x80], [CHR 0xE2, CHR 0x80, CHR 0x81],
      [CHR 0xE2, CHR 0x80, CHR 0x82], [CHR 0xE2, CHR 0x80, CHR 0x83],
      [CHR 0xE2, CHR 0x80, CHR 0x84], [CHR 0xE2, CHR 0x80, CHR 0x85],
      [CHR 0xE2, CHR 0x80, CHR 0x86], [CHR 0xE2, CHR 0x80, CHR 0x87],
      [CHR 0xE2, CHR 0x80, CHR 0x88], [CHR 0xE2, CHR 0x80, CHR 0x89],
      [CHR 0xE2, CHR 0x80, CHR 0x8A],
      [CHR 0xE2, CHR 0x80, CHR 0xA8], [CHR 0xE2, CHR 0x80, CHR 0xA9],
      [CHR 0xE2, CHR 0x80, CHR 0xAF], [CHR 0xE2, CHR 0x81, CHR 0x9F],
      [CHR 0xE3, CHR 0x80, CHR 0x80], [CHR 0xEF, CHR 0xBB, CHR 0xBF]]"

text \<open>The text without its leading white space.\<close>

fun trimStart :: "string \<Rightarrow> string" where
  "trimStart (a # b # c # r) =
     (if isWhiteSpace a then trimStart (b # c # r)
      else if [a, b] = [CHR 0xC2, CHR 0xA0] then trimStart (c # r)
      else if [a, b, c] \<in> set wideWhiteSpace then trimStart r
      else a # b # c # r)"
| "trimStart [a, b] =
     (if isWhiteSpace a then trimStart [b]
      else if [a, b] = [CHR 0xC2, CHR 0xA0] then []
      else [a, b])"
| "trimStart [a] = (if isWhiteSpace a then [] else [a])"
| "trimStart [] = []"

definition digitVal :: "char \<Rightarrow> nat option" where
  "digitVal c = map_of (zip ''0123456789'' [0, 1, 2, 3, 4, 5, 6, 7, 8, 9]) c"

definition isDigit :: "char \<Rightarrow> bool" where
  "isDigit c = (digitVal c \<noteq> None)"

definition digitsVal :: "string \<Rightarrow> nat" where
  "digitsVal ds = foldl (\<lambda>a c. 10 * a + (case digitVal c of Some d \<Rightarrow> d | None \<Rightarrow> 0)) 0 ds"

text \<open>
  The value a decimal literal denotes is rounded to a double. Of the rounding the model
  keeps what the checks of the code can see: a magnitude of at least \<open>2^1024 - 2^970\<close>
  becomes an infinity, one of at most \<open>2^-1075\<close> becomes zero.
\<close>

definition roundDouble :: "rat \<Rightarrow> jsnum" where
  "roundDouble q =
     (if 2 ^ 1024 - 2 ^ 970 \<le> \<bar>q\<bar> then (if q < 0 then NegInf else PosInf)
      else if \<bar>q\<bar> \<le> 1 / 2 ^ 1075 then Fin 0
      else Fin q)"

text \<open>The exponent part: \<^verbatim>\<open>e\<close> or \<^verbatim>\<open>E\<close>, an optional sign, and at least one digit;
  anything else is not part of the literal and the exponent is 0.\<close>

definition exponentPart :: "string \<Rightarrow> int" where
  "exponentPart s =
     (case s of
        [] \<Rightarrow> 0
      | c # r \<Rightarrow>
          if c = CHR ''e'' \<or> c = CHR ''E'' then
            (case r of
               [] \<Rightarrow> 0
             | sg # r' \<Rightarrow>
                 if sg = CHR ''-'' then - int (digitsVal (takeWhile isDigit r'))
                 else if sg = CHR ''+'' then int (digitsVal (takeWhile isDigit r'))
                 else int (digitsVal (takeWhile isDigit r)))
          else 0)"

definition scale10 :: "rat \<Rightarrow> int \<Rightarrow> rat" where
  "scale10 q e = (if 0 \<le> e then q * 10 ^ nat e else q / 10 ^ nat (- e))"

text \<open>An unsigned literal; \<open>None\<close> when the text does not start with one.\<close>

definition unsignedLiteral :: "string \<Rightarrow> jsnum option" where
  "unsignedLiteral s =
     (if take 8 s = ''Infinity'' then Some PosInf
      else
        let ip = takeWhile isDigit s;
            r1 = dropWhile isDigit s;
            dot = (r1 \<noteq> [] \<and> hd r1 = CHR ''.'');
            fp = (if dot then takeWhile isDigit (tl r1) else []);
            r2 = (if dot then dropWhile isDigit (tl r1) else r1)
        in if ip = [] \<and> fp = [] then None
           else Some (roundDouble
                  (scale10 (of_nat (digitsVal (ip @ fp)) / 10 ^ length fp) (exponentPart r2))))"

definition negate :: "jsnum \<Rightarrow> jsnum" where
  "negate x = (case x of NaN \<Rightarrow> NaN | PosInf \<Rightarrow> NegInf | NegInf \<Rightarrow> PosInf | Fin q \<Rightarrow> Fin (- q))"

definition parseFloat :: "string \<Rightarrow> jsnum" where
  "parseFloat s =
     (let t = trimStart s in
      case t of
        [] \<Rightarrow> NaN
      | c # r \<Rightarrow>
          if c = CHR ''-'' then (case unsignedLiteral r of None \<Rightarrow> NaN | Some x \<Rightarrow> negate x)
          else if c = CHR ''+'' then (case unsignedLiteral r of None \<Rightarrow> NaN | Some x \<Rightarrow> x)
          else (case unsignedLiteral t of None \<Rightarrow> NaN | Some x \<Rightarrow> x))"

section \<open>The location update normalizer\<close>

text \<open>
  The payload of an \<^verbatim>\<open>updatePassengers\<close> event, as \<^verbatim>\<open>handleLocationUpdate\<close> types its
  argument. Ride and user identifiers are integers (database keys carried as JSON numbers).
\<close>

record payload =
  lat :: jsval
  long :: "jsval option"
  lng :: "jsval option"
  rideId :: "int option"
  userId :: "int option"
  speed :: "jsnum option"

text \<open>The ride being tracked (\<^verbatim>\<open>currentRide\<close>), and a roster entry with the fields the
  tracking code reads or writes.\<close>

record ride =
  cr_rideId :: int
  cr_riderId :: int
  cr_employeeName :: string

record employee =
  emp_id :: string
  emp_name :: string
  emp_lat :: jsnum
  emp_lng :: jsnum
  emp_lastUpdate :: string
  emp_speed :: "jsnum option"

text \<open>
  The state of the tracking view: its React state, the two refs, and the table of running
  intervals of the JavaScript runtime (\<open>intervals\<close>, with the next handle to hand out).
\<close>

record view =
  selectedEmployee :: "string option"
  employees :: "employee list"
  isModalOpen :: bool
  currentRide :: "ride option"
  isSocketConnected :: bool
  socketError :: "string option"
  isTestMode :: bool
  mapRef :: "(jsnum \<times> jsnum) option"
  testIntervalRef :: "nat option"
  intervals :: "nat list"
  nextInterval :: nat

text \<open>Which return of \<^verbatim>\<open>handleLocationUpdate\<close> was taken.\<close>

datatype outcome =
    Ignored
  | Placeholder
  | Invalid
  | is_Accepted: Accepted jsnum jsnum

text \<open>\<^verbatim>\<open>const lat = typeof data.lat === 'string' ? parseFloat(data.lat) : data.lat\<close>\<close>

definition parsedLat :: "payload \<Rightarrow> jsnum" where
  "parsedLat d = (case lat d of Str s \<Rightarrow> parseFloat s | Num n \<Rightarrow> n)"

text \<open>\<^verbatim>\<open>data.long || data.lng || 0\<close>, reached when neither field is a string.\<close>

definition numericLongitude :: "jsval option \<Rightarrow> jsval option \<Rightarrow> jsnum" where
  "numericLongitude lo lg =
     (case lo of
        Some (Num a) \<Rightarrow>
          if truthy a then a
          else (case lg of Some (Num b) \<Rightarrow> if truthy b then b else Fin 0 | _ \<Rightarrow> Fin 0)
      | _ \<Rightarrow> (case lg of Some (Num b) \<Rightarrow> if truthy b then b else Fin 0 | _ \<Rightarrow> Fin 0))"

text \<open>
  \<^verbatim>\<open>const lng = typeof data.long === 'string' ? parseFloat(data.long) :
              typeof data.lng === 'string' ? parseFloat(data.lng) :
              (data.long || data.lng || 0)\<close>
\<close>

definition parsedLng :: "payload \<Rightarrow> jsnum" where
  "parsedLng d =
     (case long d of
        Some (Str s) \<Rightarrow> parseFloat s
      | _ \<Rightarrow>
          (case lng d of
             Some (Str t) \<Rightarrow> parseFloat t
           | _ \<Rightarrow> numericLongitude (long d) (lng d)))"

text \<open>\<^verbatim>\<open>speed: data.speed || emp.speed\<close>\<close>

definition speedOr :: "jsnum option \<Rightarrow> jsnum option \<Rightarrow> jsnum option" where
  "speedOr a b = (case a of Some x \<Rightarrow> if truthy x then Some x else b | None \<Rightarrow> b)"

text \<open>
  \<^verbatim>\<open>handleLocationUpdate\<close>. The view \<open>v\<close> is the state the closure captured
  (\<^verbatim>\<open>currentRide\<close>, \<^verbatim>\<open>selectedEmployee\<close>); \<open>now\<close> is
  \<^verbatim>\<open>new Date().toLocaleTimeString()\<close>. Console output is left out.
\<close>

definition handleLocationUpdate :: "string \<Rightarrow> view \<Rightarrow> payload \<Rightarrow> outcome \<times> view" where
  "handleLocationUpdate now v d =
     (case currentRide v of
        None \<Rightarrow> (Ignored, v)
      | Some cr \<Rightarrow>
          if (case rideId d of None \<Rightarrow> False | Some r \<Rightarrow> r \<noteq> 0 \<and> r \<noteq> cr_rideId cr)
          then (Ignored, v)
          else if lat d = Str ''lat'' \<or> long d = Some (Str ''long'') \<or> lat d = Str ''long''
          then (Placeholder, v)
          else
            let la = parsedLat d; lo = parsedLng d in
            if isNaN la \<or> isNaN lo \<or> la = Fin 0 \<or> lo = Fin 0 then (Invalid, v)
            else
              (Accepted la lo,
               v\<lparr>employees :=
                    map (\<lambda>emp. if Some (emp_id emp) = selectedEmployee v
                               then emp\<lparr>emp_lat := la, emp_lng := lo, emp_lastUpdate := now,
                                        emp_speed := speedOr (speed d) (emp_speed emp)\<rparr>
                               else emp)
                        (employees v),
                  mapRef := (case mapRef v of None \<Rightarrow> None | Some c \<Rightarrow> Some (la, lo))\<rparr>))"

section \<open>The socket service\<close>

text \<open>
  \<^verbatim>\<open>SocketService\<close> keeps \<^verbatim>\<open>socket\<close>, \<^verbatim>\<open>isConnected\<close> and
  \<^verbatim>\<open>reconnectAttempts\<close>. Every call of \<^verbatim>\<open>io(...)\<close> makes a new transport; the
  transports live in a store, \<^verbatim>\<open>this.socket\<close> is an index into it, and the handlers
  registered on an older transport still act on the service. Each transport carries the
  promise of the \<^verbatim>\<open>connect()\<close> call that made it. Pending \<^verbatim>\<open>setTimeout\<close>
  callbacks are kept with their delay in milliseconds; what the service asks of the outside
  is recorded in \<open>effects\<close>.
\<close>

datatype promise = Pending | Resolved | Rejected

datatype frame = JoinRideRoom int int string | LeaveRideRoom int int

datatype callback = Reconnect | ConnectTimeout nat

datatype effect =
    Io nat
  | SetTimeout callback nat
  | SocketDisconnect nat
  | Emit nat frame

record transport =
  connected :: bool
  promise :: promise

record service =
  socket :: "nat option"
  isConnected :: bool
  reconnectAttempts :: nat
  transports :: "transport list"
  timers :: "(callback \<times> nat) list"
  effects :: "effect list"

definition maxReconnectAttempts :: nat where
  "maxReconnectAttempts = 5"

text \<open>What \<^verbatim>\<open>connect()\<close> returns: a promise already resolved, or the promise of a transport.\<close>

datatype connecting = Done | Of nat

text \<open>\<^verbatim>\<open>resolve\<close> and \<^verbatim>\<open>reject\<close>: a promise is settled once.\<close>

definition settle :: "nat \<Rightarrow> promise \<Rightarrow> service \<Rightarrow> service" where
  "settle n p s =
     (if n < length (transports s) \<and> promise (transports s ! n) = Pending
      then s\<lparr>transports := (transports s)[n := (transports s ! n)\<lparr>promise := p\<rparr>]\<rparr>
      else s)"

definition setConnected :: "nat \<Rightarrow> bool \<Rightarrow> service \<Rightarrow> service" where
  "setConnected n b s =
     (if n < length (transports s)
      then s\<lparr>transports := (transports s)[n := (transports s ! n)\<lparr>connected := b\<rparr>]\<rparr>
      else s)"

text \<open>\<^verbatim>\<open>this.socket?.connected\<close>\<close>

definition socketConnected :: "service \<Rightarrow> bool" where
  "socketConnected s =
     (case socket s of
        None \<Rightarrow> False
      | Some i \<Rightarrow> i < length (transports s) \<and> connected (transports s ! i))"

definition connect :: "service \<Rightarrow> connecting \<times> service" where
  "connect s =
     (if socketConnected s then (Done, s)
      else
        let n = length (transports s) in
        (Of n,
         s\<lparr>socket := Some n,
           transports := transports s @ [\<lparr>connected = False, promise = Pending\<rparr>],
           timers := timers s @ [(ConnectTimeout n, 10000)],
           effects := effects s @ [Io n, SetTimeout (ConnectTimeout n) 10000]\<rparr>))"

text \<open>The handlers \<^verbatim>\<open>connect()\<close> registers on transport \<open>n\<close>.\<close>

definition onConnect :: "nat \<Rightarrow> service \<Rightarrow> service" where
  "onConnect n s = settle n Resolved (s\<lparr>isConnected := True, reconnectAttempts := 0\<rparr>)"

definition onConnectError :: "nat \<Rightarrow> service \<Rightarrow> service" where
  "onConnectError n s = settle n Rejected (s\<lparr>isConnected := False\<rparr>)"

definition onDisconnect :: "string \<Rightarrow> service \<Rightarrow> service" where
  "onDisconnect reason s =
     (let s1 = s\<lparr>isConnected := False\<rparr> in
      if reason \<noteq> ''io client disconnect'' \<and> reconnectAttempts s1 < maxReconnectAttempts
      then s1\<lparr>reconnectAttempts := reconnectAttempts s1 + 1,
              timers := timers s1 @ [(Reconnect, 5000)],
              effects := effects s1 @ [SetTimeout Reconnect 5000]\<rparr>
      else s1)"

text \<open>
  \<^verbatim>\<open>socket.disconnect()\<close> of the library: a transport that is connected closes and its
  \<^verbatim>\<open>disconnect\<close> handler runs at once with the reason \<^verbatim>\<open>io client disconnect\<close>.
\<close>

definition socketDisconnect :: "nat \<Rightarrow> service \<Rightarrow> service" where
  "socketDisconnect i s =
     (let s0 = s\<lparr>effects := effects s @ [SocketDisconnect i]\<rparr> in
      if i < length (transports s0) \<and> connected (transports s0 ! i)
      then onDisconnect ''io client disconnect'' (setConnected i False s0)
      else s0)"

definition disconnect :: "service \<Rightarrow> service" where
  "disconnect s =
     (case socket s of
        None \<Rightarrow> s
      | Some i \<Rightarrow> (socketDisconnect i s)\<lparr>socket := None, isConnected := False\<rparr>)"

definition joinRideRoom :: "int \<Rightarrow> int \<Rightarrow> string \<Rightarrow> service \<Rightarrow> service" where
  "joinRideRoom rid uid role s =
     (case socket s of
        None \<Rightarrow> s
      | Some i \<Rightarrow>
          if isConnected s then s\<lparr>effects := effects s @ [Emit i (JoinRideRoom rid uid role)]\<rparr>
          else s)"

definition leaveRideRoom :: "int \<Rightarrow> int \<Rightarrow> service \<Rightarrow> service" where
  "leaveRideRoom rid uid s =
     (case socket s of
        None \<Rightarrow> s
      | Some i \<Rightarrow>
          if isConnected s then s\<lparr>effects := effects s @ [Emit i (LeaveRideRoom rid uid)]\<rparr>
          else s)"

definition getConnectionStatus :: "service \<Rightarrow> bool" where
  "getConnectionStatus s = (isConnected s \<and> socketConnected s)"

text \<open>
  What can happen to the service: a call of \<^verbatim>\<open>connect()\<close> or \<^verbatim>\<open>disconnect()\<close>, an
  event of transport \<open>n\<close> (\<^verbatim>\<open>connect\<close>, \<^verbatim>\<open>connect_error\<close>, \<^verbatim>\<open>disconnect\<close> with
  its reason), or the pending timer at position \<open>k\<close> firing. Time is not measured: any
  pending timer may fire next.
\<close>

datatype event =
    CallConnect
  | CallDisconnect
  | is_Open: Open nat
  | ConnectError nat
  | Close nat string
  | Fire nat

fun step :: "service \<Rightarrow> event \<Rightarrow> service" where
  "step s CallConnect = snd (connect s)"
| "step s CallDisconnect = disconnect s"
| "step s (Open n) = (if n < length (transports s) then onConnect n (setConnected n True s) else s)"
| "step s (ConnectError n) = (if n < length (transports s) then onConnectError n s else s)"
| "step s (Close n reason) =
     (if n < length (transports s) then onDisconnect reason (setConnected n False s) else s)"
| "step s (Fire k) =
     (if k < length (timers s) then
        (let s1 = s\<lparr>timers := take k (timers s) @ drop (Suc k) (timers s)\<rparr> in
         case fst (timers s ! k) of
           Reconnect \<Rightarrow> snd (connect s1)
         | ConnectTimeout n \<Rightarrow> if isConnected s1 then s1 else settle n Rejected s1)
      else s)"

definition run :: "service \<Rightarrow> event list \<Rightarrow> service" where
  "run s es = foldl step s es"

definition initialService :: service where
  "initialService =
     \<lparr>socket = None, isConnected = False, reconnectAttempts = 0, transports = [],
      timers = [], effects = []\<rparr>"

text \<open>An unexpected close: the \<^verbatim>\<open>disconnect\<close> event of a transport of \<open>s\<close> with a reason
  other than the one a local \<^verbatim>\<open>disconnect()\<close> gives.\<close>

definition unexpectedClose :: "service \<Rightarrow> event \<Rightarrow> bool" where
  "unexpectedClose s e =
     (case e of
        Close n reason \<Rightarrow> n < length (transports s) \<and> reason \<noteq> ''io client disconnect''
      | _ \<Rightarrow> False)"

text \<open>How many reconnect attempts have been scheduled so far.\<close>

definition reconnectsScheduled :: "service \<Rightarrow> nat" where
  "reconnectsScheduled s = length (filter (\<lambda>e. e = SetTimeout Reconnect 5000) (effects s))"

section \<open>The tracking view\<close>

text \<open>
  \<^verbatim>\<open>rideId.toString()\<close>. The number that holds an integer is the double nearest to it
  (\<open>roundInt\<close>, ties to the even significand). \<^verbatim>\<open>Number.prototype.toString\<close> prints the
  fewest digits \<open>s\<close> that, followed by zeros up to \<open>n\<close> digits in all, still round to that
  double; it writes them out when \<open>n\<close> is at most 21 and switches to exponent notation
  above.
\<close>

fun natDigits :: "nat \<Rightarrow> string" where
  "natDigits n =
     (if n < 10 then [''0123456789'' ! n]
      else natDigits (n div 10) @ [''0123456789'' ! (n mod 10)])"

fun bitLength :: "nat \<Rightarrow> nat" where
  "bitLength n = (if n = 0 then 0 else Suc (bitLength (n div 2)))"

definition roundInt :: "nat \<Rightarrow> nat" where
  "roundInt x =
     (if x < 2 ^ 53 then x
      else
        let sh = bitLength x - 53;
            m = x div 2 ^ sh;
            r = x mod 2 ^ sh;
            half = 2 ^ (sh - 1)
        in (if half < r \<or> (r = half \<and> odd m) then m + 1 else m) * 2 ^ sh)"

text \<open>The \<open>k\<close>-digit number \<open>s\<close> for which \<open>s\<close> followed by \<open>n - k\<close> zeros rounds to the
  double \<open>x\<close>, the nearer one if there are two, the even one if they are as near.\<close>

definition candidate :: "nat \<Rightarrow> nat \<Rightarrow> nat \<Rightarrow> nat option" where
  "candidate x n k =
     (let p = 10 ^ (n - k);
          s1 = x div p;
          s2 = s1 + 1;
          ok1 = (roundInt (s1 * p) = x);
          ok2 = (s2 < 10 ^ k \<and> roundInt (s2 * p) = x)
      in if ok1 \<and> ok2 then
           (if x - s1 * p < s2 * p - x then Some s1
            else if s2 * p - x < x - s1 * p then Some s2
            else if even s1 then Some s1 else Some s2)
         else if ok1 then Some s1
         else if ok2 then Some s2
         else None)"

function shortest :: "nat \<Rightarrow> nat \<Rightarrow> nat \<Rightarrow> nat \<times> nat" where
  "shortest x n k =
     (if n \<le> k then (x, n)
      else (case candidate x n k of Some s \<Rightarrow> (s, k) | None \<Rightarrow> shortest x n (Suc k)))"
  by pat_completeness auto
termination
  by (relation "measure (\<lambda>(x, n, k). n - k)") auto

definition numberToString :: "nat \<Rightarrow> string" where
  "numberToString x =
     (if x = 0 then ''0''
      else if 2 ^ 1024 \<le> x then ''Infinity''
      else
        let m = length (natDigits x);
            skn = (if roundInt (10 ^ m) = x then (1, 1, m + 1)
                   else (fst (shortest x m 1), snd (shortest x m 1), m));
            s = fst skn; k = fst (snd skn); n = snd (snd skn);
            ds = natDigits s
        in if n \<le> 21 then ds @ replicate (n - k) (CHR ''0'')
           else (if k = 1 then ds else hd ds # CHR ''.'' # tl ds) @ ''e+'' @ natDigits (n - 1))"

definition toString :: "int \<Rightarrow> string" where
  "toString i =
     (if i < 0 then CHR ''-'' # numberToString (roundInt (nat (- i)))
      else numberToString (roundInt (nat i)))"

text \<open>
  \<^verbatim>\<open>handleEmployeeSelect\<close>, on the view and the service it calls. The marker it adds
  for a ride not yet in the roster sits at the default location.
\<close>

definition newEmployee :: "string \<Rightarrow> int \<Rightarrow> string \<Rightarrow> employee" where
  "newEmployee now rid nm =
     \<lparr>emp_id = toString rid, emp_name = nm, emp_lat = Fin (248607 / 10000),
      emp_lng = Fin (670011 / 10000), emp_lastUpdate = now, emp_speed = Some (Fin 0)\<rparr>"

definition handleEmployeeSelect ::
  "string \<Rightarrow> int \<Rightarrow> int \<Rightarrow> string \<Rightarrow> view \<times> service \<Rightarrow> view \<times> service" where
  "handleEmployeeSelect now rid uid nm vs =
     (let v = fst vs; s = snd vs;
          s1 = (case currentRide v of
                  None \<Rightarrow> s
                | Some cr \<Rightarrow>
                    if isSocketConnected v then leaveRideRoom (cr_rideId cr) (cr_riderId cr) s
                    else s);
          v1 = v\<lparr>currentRide := Some \<lparr>cr_rideId = rid, cr_riderId = uid, cr_employeeName = nm\<rparr>,
                 selectedEmployee := Some (toString rid),
                 isModalOpen := False,
                 employees :=
                   (case List.find (\<lambda>emp. emp_id emp = toString rid) (employees v) of
                      Some e \<Rightarrow> employees v
                    | None \<Rightarrow> employees v @ [newEmployee now rid nm])\<rparr>
      in if isSocketConnected v then (v1, joinRideRoom rid uid ''admin'' s1)
         else (v1\<lparr>socketError := Some ''Socket disconnected - cannot track in real-time''\<rparr>, s1))"












text \<open>A view that tracks ride 8 of rider 7, used in the examples.\<close>

definition trackingView :: view where
  "trackingView =
     \<lparr>selectedEmployee = Some ''8'',
      employees = [newEmployee ''09:00:00'' 8 ''Ali'', newEmployee ''09:00:00'' 9 ''Sara''],
      isModalOpen = False,
      currentRide = Some \<lparr>cr_rideId = 8, cr_riderId = 7, cr_employeeName = ''Ali''\<rparr>,
      isSocketConnected = True, socketError = None, isTestMode = False,
      mapRef = None, testIntervalRef = None, intervals = [], nextInterval = 1\<rparr>"

text \<open>The service after \<^verbatim>\<open>connect()\<close> and the \<^verbatim>\<open>connect\<close> event of its transport.\<close>

definition connectedService :: service where
  "connectedService = run initialService [CallConnect, Open 0]"

section \<open>Evaluating parseFloat\<close>

lemmas parseFloat_eval = parseFloat_def unsignedLiteral_def exponentPart_def scale10_def
  roundDouble_def digitsVal_def digitVal_def isDigit_def isWhiteSpace_def wideWhiteSpace_def
  negate_def

lemma parseFloat_lat: "parseFloat ''lat'' = NaN"
  by (simp add: parseFloat_eval)

lemma parseFloat_long: "parseFloat ''long'' = NaN"
  by (simp add: parseFloat_eval)

lemma parseFloat_zero: "parseFloat ''0'' = Fin 0"
  by (simp add: parseFloat_eval)

lemma parseFloat_24: "parseFloat ''24.8607'' = Fin (248607 / 10000)"
  by (simp add: parseFloat_eval)

lemma parseFloat_67: "parseFloat ''67.0011'' = Fin (670011 / 10000)"
  by (simp add: parseFloat_eval)

section \<open>The validity check\<close>

text \<open>
  C1, as stated, at a latitude of 0 with a longitude of 67.0011 and ride 8 tracked: the
  claim lets the update pass the validity check because only one coordinate is zero, and
  \<^verbatim>\<open>handleLocationUpdate\<close> returns through the invalid-coordinates branch and leaves the view
  as it was.
\<close>

theorem one_zero_coordinate_counterexample:
  "parsedLat \<lparr>lat = Str ''0'', long = Some (Str ''67.0011''), lng = None, rideId = None,
      userId = None, speed = None\<rparr> = Fin 0
   \<and> parsedLng \<lparr>lat = Str ''0'', long = Some (Str ''67.0011''), lng = None, rideId = None,
      userId = None, speed = None\<rparr> = Fin (670011 / 10000)
   \<and> handleLocationUpdate ''09:00:03'' trackingView
     \<lparr>lat = Str ''0'', long = Some (Str ''67.0011''), lng = None, rideId = None,
      userId = None, speed = None\<rparr> = (Invalid, trackingView)"
  by (simp add: handleLocationUpdate_def trackingView_def parsedLat_def parsedLng_def isNaN_def
       parseFloat_zero parseFloat_67)

text \<open>
  C1, amended: for a payload that passes the relevance and placeholder checks and whose
  latitude and longitude both parse to a number other than NaN, the update is dropped if
  and only if at least one of the two resolved coordinates equals exactly 0; it is accepted
  if and only if neither does.
\<close>

theorem zero_coordinate_dropped:
  assumes "currentRide v = Some cr"
    and "rideId d = None \<or> rideId d = Some 0 \<or> rideId d = Some (cr_rideId cr)"
    and "lat d \<noteq> Str ''lat''" and "lat d \<noteq> Str ''long''" and "long d \<noteq> Some (Str ''long'')"
    and "parsedLat d \<noteq> NaN" and "parsedLng d \<noteq> NaN"
  shows "(handleLocationUpdate now v d = (Invalid, v)) = (parsedLat d = Fin 0 \<or> parsedLng d = Fin 0)
       \<and> is_Accepted (fst (handleLocationUpdate now v d))
           = (parsedLat d \<noteq> Fin 0 \<and> parsedLng d \<noteq> Fin 0)"
  using assms by (auto simp: handleLocationUpdate_def isNaN_def Let_def)

theorem zero_coordinate_dropped_witness:
  "handleLocationUpdate ''09:00:03'' trackingView
     \<lparr>lat = Str ''0'', long = Some (Str ''67.0011''), lng = None, rideId = Some 8,
      userId = Some 7, speed = None\<rparr> = (Invalid, trackingView)
   \<and> is_Accepted (fst (handleLocationUpdate ''09:00:03'' trackingView
     \<lparr>lat = Str ''24.8607'', long = Some (Str ''67.0011''), lng = None, rideId = Some 8,
      userId = Some 7, speed = None\<rparr>))"
  using zero_coordinate_dropped [of trackingView
     "\<lparr>cr_rideId = 8, cr_riderId = 7, cr_employeeName = ''Ali''\<rparr>"
     "\<lparr>lat = Str ''0'', long = Some (Str ''67.0011''), lng = None, rideId = Some 8,
      userId = Some 7, speed = None\<rparr>" "''09:00:03''"]
   zero_coordinate_dropped [of trackingView
     "\<lparr>cr_rideId = 8, cr_riderId = 7, cr_employeeName = ''Ali''\<rparr>"
     "\<lparr>lat = Str ''24.8607'', long = Some (Str ''67.0011''), lng = None, rideId = Some 8,
      userId = Some 7, speed = None\<rparr>" "''09:00:03''"]
  by (simp add: trackingView_def parsedLat_def parsedLng_def parseFloat_zero parseFloat_24
       parseFloat_67)

section \<open>The relevance check\<close>

text \<open>
  C2, as stated, at a payload that carries the rideId 0 while ride 8 is tracked: the claim
  drops every update whose rideId differs from the tracked one, and this update is
  accepted.
\<close>

theorem zero_rideId_counterexample:
  "cr_rideId \<lparr>cr_rideId = 8, cr_riderId = 7, cr_employeeName = ''Ali''\<rparr> \<noteq> 0
   \<and> currentRide trackingView = Some \<lparr>cr_rideId = 8, cr_riderId = 7, cr_employeeName = ''Ali''\<rparr>
   \<and> fst (handleLocationUpdate ''09:00:03'' trackingView
     \<lparr>lat = Str ''24.8607'', long = Some (Str ''67.0011''), lng = None, rideId = Some 0,
      userId = None, speed = None\<rparr>) = Accepted (Fin (248607 / 10000)) (Fin (670011 / 10000))"
  by (simp add: handleLocationUpdate_def trackingView_def parsedLat_def parsedLng_def isNaN_def
       parseFloat_24 parseFloat_67 Let_def)

text \<open>
  C2, amended: with no ride tracked the update is dropped; with a ride tracked, an update
  that carries a rideId other than 0 and other than the tracked one is dropped; and an update
  that carries no rideId is never dropped by the relevance check: what happens to it is
  decided by the placeholder and validity checks alone.
\<close>

theorem relevance_check:
  "(currentRide v = None \<longrightarrow> handleLocationUpdate now v d = (Ignored, v))
   \<and> (currentRide v = Some cr \<and> rideId d = Some r \<and> r \<noteq> 0 \<and> r \<noteq> cr_rideId cr
        \<longrightarrow> handleLocationUpdate now v d = (Ignored, v))
   \<and> (currentRide v = Some cr \<and> rideId d = None
        \<longrightarrow> fst (handleLocationUpdate now v d) =
            (if lat d = Str ''lat'' \<or> long d = Some (Str ''long'') \<or> lat d = Str ''long''
             then Placeholder
             else if isNaN (parsedLat d) \<or> isNaN (parsedLng d)
                     \<or> parsedLat d = Fin 0 \<or> parsedLng d = Fin 0
             then Invalid
             else Accepted (parsedLat d) (parsedLng d)))"
  by (auto simp: handleLocationUpdate_def Let_def)

theorem relevance_check_witness:
  "handleLocationUpdate ''09:00:03'' (trackingView\<lparr>currentRide := None\<rparr>)
     \<lparr>lat = Str ''24.8607'', long = Some (Str ''67.0011''), lng = None, rideId = Some 8,
      userId = None, speed = None\<rparr> = (Ignored, trackingView\<lparr>currentRide := None\<rparr>)
   \<and> handleLocationUpdate ''09:00:03'' trackingView
     \<lparr>lat = Str ''24.86'', long = Some (Str ''67.00''), lng = None, rideId = Some 99,
      userId = None, speed = None\<rparr> = (Ignored, trackingView)
   \<and> fst (handleLocationUpdate ''09:00:03'' trackingView
     \<lparr>lat = Str ''24.8607'', long = Some (Str ''67.0011''), lng = None, rideId = None,
      userId = None, speed = None\<rparr>) = Accepted (Fin (248607 / 10000)) (Fin (670011 / 10000))"
  using relevance_check [of "trackingView\<lparr>currentRide := None\<rparr>" "''09:00:03''"
     "\<lparr>lat = Str ''24.8607'', long = Some (Str ''67.0011''), lng = None, rideId = Some 8,
      userId = None, speed = None\<rparr>"]
    relevance_check [of trackingView "''09:00:03''"
     "\<lparr>lat = Str ''24.86'', long = Some (Str ''67.00''), lng = None, rideId = Some 99,
      userId = None, speed = None\<rparr>"
     "\<lparr>cr_rideId = 8, cr_riderId = 7, cr_employeeName = ''Ali''\<rparr>" 99]
    relevance_check [of trackingView "''09:00:03''"
     "\<lparr>lat = Str ''24.8607'', long = Some (Str ''67.0011''), lng = None, rideId = None,
      userId = None, speed = None\<rparr>"
     "\<lparr>cr_rideId = 8, cr_riderId = 7, cr_employeeName = ''Ali''\<rparr>"]
  by (simp add: trackingView_def parsedLat_def parsedLng_def isNaN_def parseFloat_24 parseFloat_67)

lemma parsedLat_rideId: "parsedLat (d\<lparr>rideId := x\<rparr>) = parsedLat d"
  by (simp add: parsedLat_def)

lemma parsedLng_rideId: "parsedLng (d\<lparr>rideId := x\<rparr>) = parsedLng d"
  by (simp add: parsedLng_def split: option.splits jsval.splits)

text \<open>
  C10: a payload whose rideId is 0 is handled exactly as the same payload without a rideId,
  whatever ride is tracked; so it can be accepted although 0 differs from the tracked
  rideId, as the update below is while ride 8 is tracked.
\<close>

theorem falsy_rideId_skips_relevance:
  "handleLocationUpdate now v (d\<lparr>rideId := Some 0\<rparr>) = handleLocationUpdate now v (d\<lparr>rideId := None\<rparr>)
   \<and> fst (handleLocationUpdate ''09:00:06'' trackingView
     \<lparr>lat = Num (Fin (248949 / 10000)), long = None, lng = Some (Num (Fin (6703 / 100))),
      rideId = Some 0, userId = Some 7, speed = Some (Fin 45)\<rparr>)
     = Accepted (Fin (248949 / 10000)) (Fin (6703 / 100))"
proof
  show "handleLocationUpdate now v (d\<lparr>rideId := Some 0\<rparr>)
          = handleLocationUpdate now v (d\<lparr>rideId := None\<rparr>)"
    by (cases "currentRide v")
      (simp_all add: handleLocationUpdate_def parsedLat_rideId parsedLng_rideId cong: if_cong)
  show "fst (handleLocationUpdate ''09:00:06'' trackingView
     \<lparr>lat = Num (Fin (248949 / 10000)), long = None, lng = Some (Num (Fin (6703 / 100))),
      rideId = Some 0, userId = Some 7, speed = Some (Fin 45)\<rparr>)
     = Accepted (Fin (248949 / 10000)) (Fin (6703 / 100))"
    by (simp add: handleLocationUpdate_def parsedLat_def parsedLng_def numericLongitude_def
         truthy_def isNaN_def trackingView_def Let_def)
qed

section \<open>Coordinate extraction\<close>

text \<open>
  C5, as stated, at a payload whose \<^verbatim>\<open>long\<close> is the number 0 and whose \<^verbatim>\<open>lng\<close> is
  67.0011: \<^verbatim>\<open>long\<close> is present, the claim resolves the longitude to its value 0, and the
  code resolves it to \<^verbatim>\<open>lng\<close> and accepts the update.
\<close>

theorem zero_long_counterexample:
  "long \<lparr>lat = Num (Fin (248607 / 10000)), long = Some (Num (Fin 0)),
      lng = Some (Num (Fin (670011 / 10000))), rideId = Some 8, userId = Some 7, speed = None\<rparr>
     = Some (Num (Fin 0))
   \<and> parsedLng \<lparr>lat = Num (Fin (248607 / 10000)), long = Some (Num (Fin 0)),
      lng = Some (Num (Fin (670011 / 10000))), rideId = Some 8, userId = Some 7, speed = None\<rparr>
     = Fin (670011 / 10000)
   \<and> fst (handleLocationUpdate ''09:00:03'' trackingView
      \<lparr>lat = Num (Fin (248607 / 10000)), long = Some (Num (Fin 0)),
      lng = Some (Num (Fin (670011 / 10000))), rideId = Some 8, userId = Some 7, speed = None\<rparr>)
     = Accepted (Fin (248607 / 10000)) (Fin (670011 / 10000))"
  by (simp add: handleLocationUpdate_def trackingView_def parsedLat_def parsedLng_def
       numericLongitude_def truthy_def isNaN_def Let_def)

text \<open>
  C5, amended: the resolved longitude is \<^verbatim>\<open>parseFloat(long)\<close> when \<^verbatim>\<open>long\<close> is a
  string, whatever \<^verbatim>\<open>lng\<close> is; it is \<^verbatim>\<open>long\<close> when \<^verbatim>\<open>long\<close> is a number other than
  0 and NaN and \<^verbatim>\<open>lng\<close> is not a string; when \<^verbatim>\<open>long\<close> is absent, 0 or NaN it is taken
  from \<^verbatim>\<open>lng\<close> (a string is parsed with \<^verbatim>\<open>parseFloat\<close>, a number other than 0 and NaN
  is taken as it is) and is 0 when \<^verbatim>\<open>lng\<close> gives no such value. An accepted update carries
  the resolved latitude and longitude.
\<close>

theorem longitude_resolution:
  "(long d = Some (Str s) \<longrightarrow> parsedLng d = parseFloat s)
   \<and> (long d = Some (Num a) \<and> truthy a \<and> (case lng d of Some (Str t) \<Rightarrow> False | _ \<Rightarrow> True)
        \<longrightarrow> parsedLng d = a)
   \<and> ((long d = None \<or> long d = Some (Num (Fin 0)) \<or> long d = Some (Num NaN))
        \<longrightarrow> parsedLng d =
            (case lng d of
               Some (Str t) \<Rightarrow> parseFloat t
             | Some (Num b) \<Rightarrow> if truthy b then b else Fin 0
             | None \<Rightarrow> Fin 0))
   \<and> (is_Accepted (fst (handleLocationUpdate now v d))
        \<longrightarrow> fst (handleLocationUpdate now v d) = Accepted (parsedLat d) (parsedLng d))"
  by (auto simp: parsedLng_def numericLongitude_def truthy_def handleLocationUpdate_def Let_def
       split: option.splits jsval.splits)

theorem longitude_resolution_witness:
  "parsedLng \<lparr>lat = Str ''24.8607'', long = Some (Str ''67.0011''), lng = Some (Num (Fin 5)),
      rideId = None, userId = None, speed = None\<rparr> = Fin (670011 / 10000)
   \<and> parsedLng \<lparr>lat = Str ''24.8607'', long = Some (Num (Fin 67)), lng = Some (Num (Fin 5)),
      rideId = None, userId = None, speed = None\<rparr> = Fin 67
   \<and> parsedLng \<lparr>lat = Str ''24.8607'', long = None, lng = Some (Str ''67.0011''),
      rideId = None, userId = None, speed = None\<rparr> = Fin (670011 / 10000)
   \<and> parsedLng \<lparr>lat = Str ''24.8607'', long = None, lng = None,
      rideId = None, userId = None, speed = None\<rparr> = Fin 0
   \<and> fst (handleLocationUpdate ''09:00:03'' trackingView
      \<lparr>lat = Str ''24.8607'', long = None, lng = Some (Str ''67.0011''),
      rideId = None, userId = None, speed = None\<rparr>)
     = Accepted (Fin (248607 / 10000)) (Fin (670011 / 10000))"
  using longitude_resolution [of "\<lparr>lat = Str ''24.8607'', long = Some (Str ''67.0011''),
      lng = Some (Num (Fin 5)), rideId = None, userId = None, speed = None\<rparr>" "''67.0011''"]
    longitude_resolution [of "\<lparr>lat = Str ''24.8607'', long = Some (Num (Fin 67)),
      lng = Some (Num (Fin 5)), rideId = None, userId = None, speed = None\<rparr>" _ "Fin 67"]
    longitude_resolution [of "\<lparr>lat = Str ''24.8607'', long = None, lng = Some (Str ''67.0011''),
      rideId = None, userId = None, speed = None\<rparr>" _ _ "''09:00:03''" trackingView]
    longitude_resolution [of "\<lparr>lat = Str ''24.8607'', long = None, lng = None,
      rideId = None, userId = None, speed = None\<rparr>"]
  by (simp add: truthy_def parseFloat_67 parseFloat_24 parsedLat_def handleLocationUpdate_def
        trackingView_def isNaN_def Let_def)

section \<open>The placeholder check\<close>

text \<open>
  C6, as stated, at a payload whose \<^verbatim>\<open>lng\<close> is the placeholder \<^verbatim>\<open>long\<close> while its
  \<^verbatim>\<open>long\<close> is a numeric string: the claim drops it, and the code never looks at
  \<^verbatim>\<open>lng\<close> and accepts the update.
\<close>

theorem placeholder_lng_counterexample:
  "lng \<lparr>lat = Str ''24.8607'', long = Some (Str ''67.0011''), lng = Some (Str ''long''),
      rideId = Some 8, userId = Some 7, speed = None\<rparr> = Some (Str ''long'')
   \<and> fst (handleLocationUpdate ''09:00:03'' trackingView
      \<lparr>lat = Str ''24.8607'', long = Some (Str ''67.0011''), lng = Some (Str ''long''),
      rideId = Some 8, userId = Some 7, speed = None\<rparr>)
     = Accepted (Fin (248607 / 10000)) (Fin (670011 / 10000))"
  by (simp add: handleLocationUpdate_def trackingView_def parsedLat_def parsedLng_def
       isNaN_def Let_def parseFloat_24 parseFloat_67)

text \<open>
  C6, amended: an update is dropped, and the view is left as it was, whenever \<^verbatim>\<open>lat\<close> or
  \<^verbatim>\<open>long\<close> is one of the placeholder strings \<^verbatim>\<open>lat\<close> and \<^verbatim>\<open>long\<close>, or \<^verbatim>\<open>lng\<close> is
  one of them and \<^verbatim>\<open>long\<close> is not a string.
\<close>

theorem placeholder_dropped:
  assumes "lat d \<in> {Str ''lat'', Str ''long''}
         \<or> long d \<in> {Some (Str ''lat''), Some (Str ''long'')}
         \<or> lng d \<in> {Some (Str ''lat''), Some (Str ''long'')}
            \<and> (case long d of Some (Str s) \<Rightarrow> False | _ \<Rightarrow> True)"
  shows "snd (handleLocationUpdate now v d) = v
       \<and> \<not> is_Accepted (fst (handleLocationUpdate now v d))"
proof -
  have nan: "lat d \<in> {Str ''lat'', Str ''long''} \<or> long d = Some (Str ''long'')
             \<or> isNaN (parsedLng d)"
    using assms
    by (auto simp: parsedLng_def isNaN_def parseFloat_lat parseFloat_long
          split: option.splits jsval.splits)
  then show ?thesis
    by (auto simp: handleLocationUpdate_def Let_def split: option.splits)
qed

theorem placeholder_dropped_witness:
  "handleLocationUpdate ''09:00:03'' trackingView
      \<lparr>lat = Str ''lat'', long = Some (Str ''long''), lng = None,
      rideId = None, userId = None, speed = None\<rparr> = (Placeholder, trackingView)
   \<and> handleLocationUpdate ''09:00:03'' trackingView
      \<lparr>lat = Str ''24.8607'', long = None, lng = Some (Str ''long''),
      rideId = None, userId = None, speed = None\<rparr> = (Invalid, trackingView)"
  using placeholder_dropped [of "\<lparr>lat = Str ''lat'', long = Some (Str ''long''), lng = None,
      rideId = None, userId = None, speed = None\<rparr>" "''09:00:03''" trackingView]
    placeholder_dropped [of "\<lparr>lat = Str ''24.8607'', long = None, lng = Some (Str ''long''),
      rideId = None, userId = None, speed = None\<rparr>" "''09:00:03''" trackingView]
  by (simp add: handleLocationUpdate_def trackingView_def parsedLat_def parsedLng_def
       isNaN_def Let_def parseFloat_24 parseFloat_long)

section \<open>Room switching\<close>

text \<open>
  C7: when a ride is selected while another one is tracked, the view believes the socket
  connected and the service is connected on transport \<open>i\<close>, \<^verbatim>\<open>handleEmployeeSelect\<close> emits
  on that transport a \<^verbatim>\<open>leaveRideRoom\<close> frame for the tracked ride and then a
  \<^verbatim>\<open>joinRideRoom\<close> frame for the selected one, in this order and nothing else, and the
  selected ride becomes the tracked one.
\<close>

theorem leave_before_join:
  assumes "currentRide v = Some cr" and "isSocketConnected v"
    and "socket s = Some i" and "isConnected s"
  shows "effects (snd (handleEmployeeSelect now rideB riderB nm (v, s)))
           = effects s @ [Emit i (LeaveRideRoom (cr_rideId cr) (cr_riderId cr)),
                          Emit i (JoinRideRoom rideB riderB ''admin'')]
       \<and> currentRide (fst (handleEmployeeSelect now rideB riderB nm (v, s)))
           = Some \<lparr>cr_rideId = rideB, cr_riderId = riderB, cr_employeeName = nm\<rparr>"
  using assms
  by (simp add: handleEmployeeSelect_def leaveRideRoom_def joinRideRoom_def Let_def)

section \<open>Connecting and reconnecting\<close>

lemmas service_eval = run_def connect_def socketConnected_def onConnect_def onConnectError_def
  onDisconnect_def socketDisconnect_def disconnect_def settle_def setConnected_def
  maxReconnectAttempts_def initialService_def Let_def

lemma connectedService_eq:
  "connectedService =
     \<lparr>socket = Some 0, isConnected = True, reconnectAttempts = 0,
      transports = [\<lparr>connected = True, promise = Resolved\<rparr>],
      timers = [(ConnectTimeout 0, 10000)],
      effects = [Io 0, SetTimeout (ConnectTimeout 0) 10000]\<rparr>"
  by (simp add: connectedService_def service_eval)

theorem leave_before_join_witness:
  "effects (snd (handleEmployeeSelect ''09:05:00'' 9 12 ''Sara'' (trackingView, connectedService)))
     = [Io 0, SetTimeout (ConnectTimeout 0) 10000,
        Emit 0 (LeaveRideRoom 8 7), Emit 0 (JoinRideRoom 9 12 ''admin'')]"
  using leave_before_join [of trackingView
      "\<lparr>cr_rideId = 8, cr_riderId = 7, cr_employeeName = ''Ali''\<rparr>" connectedService 0
      "''09:05:00''" 9 12 "''Sara''"]
  by (simp add: trackingView_def connectedService_eq)

text \<open>
  C8: while the transport of the service is connected, \<^verbatim>\<open>connect()\<close> returns a promise
  that is already resolved and changes nothing, so no transport is opened; a second call
  right after it does the same.
\<close>

theorem connect_idempotent:
  assumes "socketConnected s"
  shows "connect s = (Done, s) \<and> connect (snd (connect s)) = (Done, s)
       \<and> run s [CallConnect, CallConnect] = s"
  using assms by (simp add: connect_def run_def)

theorem connect_idempotent_witness:
  "socketConnected connectedService
   \<and> connect connectedService = (Done, connectedService)
   \<and> connect (snd (connect connectedService)) = (Done, connectedService)
   \<and> transports (run connectedService [CallConnect, CallConnect])
       = [\<lparr>connected = True, promise = Resolved\<rparr>]"
proof -
  have c: "socketConnected connectedService"
    by (simp add: connectedService_eq socketConnected_def)
  show ?thesis using c connect_idempotent [OF c] by (simp add: connectedService_eq)
qed

text \<open>
  C3, evaluated where it fails: the transport opens, closes unexpectedly, and
  \<^verbatim>\<open>disconnect()\<close> is called while the reconnect timer is pending. The timer stays
  pending after \<^verbatim>\<open>disconnect()\<close>, and when it fires \<^verbatim>\<open>connect()\<close> opens a second
  transport.
\<close>

theorem reconnect_after_disconnect:
  "socket (run initialService
      [CallConnect, Open 0, Fire 0, Close 0 ''transport close'', CallDisconnect]) = None
   \<and> timers (run initialService
      [CallConnect, Open 0, Fire 0, Close 0 ''transport close'', CallDisconnect])
       = [(Reconnect, 5000)]
   \<and> socket (run initialService
      [CallConnect, Open 0, Fire 0, Close 0 ''transport close'', CallDisconnect, Fire 0]) = Some 1
   \<and> effects (run initialService
      [CallConnect, Open 0, Fire 0, Close 0 ''transport close'', CallDisconnect, Fire 0])
       = [Io 0, SetTimeout (ConnectTimeout 0) 10000, SetTimeout Reconnect 5000,
          SocketDisconnect 0, Io 1, SetTimeout (ConnectTimeout 1) 10000]"
  by (simp add: service_eval)

subsection \<open>The reconnection bound\<close>

lemma connect_attempts: "reconnectAttempts (snd (connect s)) = reconnectAttempts s"
  by (simp add: connect_def Let_def)

lemma connect_scheduled: "reconnectsScheduled (snd (connect s)) = reconnectsScheduled s"
  by (simp add: connect_def Let_def reconnectsScheduled_def)

lemma settle_attempts: "reconnectAttempts (settle n p s) = reconnectAttempts s"
  by (simp add: settle_def)

lemma settle_scheduled: "reconnectsScheduled (settle n p s) = reconnectsScheduled s"
  by (simp add: settle_def reconnectsScheduled_def)

lemma setConnected_attempts: "reconnectAttempts (setConnected n b s) = reconnectAttempts s"
  by (simp add: setConnected_def)

lemma setConnected_scheduled: "reconnectsScheduled (setConnected n b s) = reconnectsScheduled s"
  by (simp add: setConnected_def reconnectsScheduled_def)

lemma scheduled_isConnected: "reconnectsScheduled (s\<lparr>isConnected := b\<rparr>) = reconnectsScheduled s"
  by (simp add: reconnectsScheduled_def)

lemma scheduled_timers: "reconnectsScheduled (s\<lparr>timers := t\<rparr>) = reconnectsScheduled s"
  by (simp add: reconnectsScheduled_def)

lemma unexpectedClose_length:
  "length (transports s') = length (transports s) \<Longrightarrow> unexpectedClose s' e = unexpectedClose s e"
  by (cases e) (simp_all add: unexpectedClose_def)

lemma setConnected_length: "length (transports (setConnected n b s)) = length (transports s)"
  by (simp add: setConnected_def)

lemma onDisconnect_counts:
  "reconnectAttempts s \<le> 5 \<Longrightarrow>
   reconnectAttempts (onDisconnect r s) \<le> 5
   \<and> reconnectAttempts s \<le> reconnectAttempts (onDisconnect r s)
   \<and> reconnectsScheduled (onDisconnect r s) + reconnectAttempts s
       = reconnectsScheduled s + reconnectAttempts (onDisconnect r s)"
  by (simp add: onDisconnect_def Let_def reconnectsScheduled_def maxReconnectAttempts_def)

lemma onDisconnect_length: "length (transports (onDisconnect r s)) = length (transports s)"
  by (simp add: onDisconnect_def Let_def)

lemma disconnect_counts:
  "reconnectAttempts s \<le> 5 \<Longrightarrow>
   reconnectAttempts (disconnect s) \<le> 5
   \<and> reconnectAttempts s \<le> reconnectAttempts (disconnect s)
   \<and> reconnectsScheduled (disconnect s) + reconnectAttempts s
       = reconnectsScheduled s + reconnectAttempts (disconnect s)"
  by (simp add: disconnect_def socketDisconnect_def onDisconnect_def setConnected_def Let_def
        reconnectsScheduled_def maxReconnectAttempts_def split: option.splits)

lemma step_counts:
  assumes "\<not> is_Open e" and "reconnectAttempts s \<le> 5"
  shows "reconnectAttempts (step s e) \<le> 5
   \<and> reconnectAttempts s \<le> reconnectAttempts (step s e)
   \<and> reconnectsScheduled (step s e) + reconnectAttempts s
       = reconnectsScheduled s + reconnectAttempts (step s e)"
proof (cases e)
  case CallConnect
  then show ?thesis using assms by (simp add: connect_attempts connect_scheduled)
next
  case CallDisconnect
  then show ?thesis using assms disconnect_counts [of s] by simp
next
  case (Open n)
  then show ?thesis using assms by simp
next
  case (ConnectError n)
  then show ?thesis using assms
    by (simp add: onConnectError_def settle_attempts settle_scheduled scheduled_isConnected)
next
  case (Close n r)
  then show ?thesis
    using assms onDisconnect_counts [of "setConnected n False s" r]
    by (simp add: setConnected_attempts setConnected_scheduled)
next
  case (Fire k)
  then show ?thesis using assms
    by (simp add: Let_def connect_attempts connect_scheduled settle_attempts settle_scheduled
          scheduled_timers split: callback.splits)
qed

lemma run_counts:
  "\<forall>e\<in>set es. \<not> is_Open e \<Longrightarrow> reconnectAttempts s \<le> 5 \<Longrightarrow>
   reconnectAttempts (run s es) \<le> 5
   \<and> reconnectAttempts s \<le> reconnectAttempts (run s es)
   \<and> reconnectsScheduled (run s es) + reconnectAttempts s
       = reconnectsScheduled s + reconnectAttempts (run s es)"
proof (induction es arbitrary: s)
  case Nil
  then show ?case by (simp add: run_def)
next
  case (Cons e es)
  have st: "reconnectAttempts (step s e) \<le> 5
     \<and> reconnectAttempts s \<le> reconnectAttempts (step s e)
     \<and> reconnectsScheduled (step s e) + reconnectAttempts s
         = reconnectsScheduled s + reconnectAttempts (step s e)"
    using Cons.prems step_counts [of e s] by simp
  have "reconnectAttempts (run (step s e) es) \<le> 5
     \<and> reconnectAttempts (step s e) \<le> reconnectAttempts (run (step s e) es)
     \<and> reconnectsScheduled (run (step s e) es) + reconnectAttempts (step s e)
         = reconnectsScheduled (step s e) + reconnectAttempts (run (step s e) es)"
    using Cons.IH [of "step s e"] Cons.prems st by simp
  then show ?case using st by (simp add: run_def)
qed

lemma close_step:
  assumes "n < length (transports s)" and "r \<noteq> ''io client disconnect''"
    and "reconnectAttempts s < 5"
  shows "reconnectAttempts (step s (Close n r)) = reconnectAttempts s + 1
       \<and> timers (step s (Close n r)) = timers s @ [(Reconnect, 5000)]
       \<and> length (transports (step s (Close n r))) = length (transports s)"
  using assms
  by (simp add: onDisconnect_def setConnected_def Let_def maxReconnectAttempts_def)

lemma closes_run:
  "\<forall>e\<in>set cs. unexpectedClose s e \<Longrightarrow> reconnectAttempts s + length cs \<le> 5 \<Longrightarrow>
   reconnectAttempts (run s cs) = reconnectAttempts s + length cs"
proof (induction cs arbitrary: s)
  case Nil
  then show ?case by (simp add: run_def)
next
  case (Cons e cs)
  from Cons.prems obtain n r where e: "e = Close n r" and n: "n < length (transports s)"
      and r: "r \<noteq> ''io client disconnect''"
    by (auto simp: unexpectedClose_def split: event.splits)
  have lt: "reconnectAttempts s < 5" using Cons.prems by simp
  have st: "reconnectAttempts (step s e) = reconnectAttempts s + 1"
      "length (transports (step s e)) = length (transports s)"
    using close_step [OF n r lt] e by simp_all
  have "\<forall>x\<in>set cs. unexpectedClose (step s e) x"
    using Cons.prems(1) unexpectedClose_length [OF st(2)] by simp
  then have "reconnectAttempts (run (step s e) cs) = reconnectAttempts (step s e) + length cs"
    using Cons.IH [of "step s e"] Cons.prems(2) st(1) by simp
  then show ?case using st(1) by (simp add: run_def)
qed

lemma unexpectedClose_not_Open: "unexpectedClose s e \<Longrightarrow> \<not> is_Open e"
  by (auto simp: unexpectedClose_def split: event.splits)

lemma run_append: "run s (xs @ ys) = run (run s xs) ys"
  by (simp add: run_def)

lemma connecting_pending:
  "length (transports (run initialService [CallConnect])) = 1
   \<and> promise (transports (run initialService [CallConnect]) ! 0) = Pending"
  by (simp add: service_eval)

lemma open_resolves:
  assumes "n < length (transports s)" and "promise (transports s ! n) = Pending"
  shows "promise (transports (step s (Open n)) ! n) = Resolved"
  using assms by (simp add: onConnect_def settle_def setConnected_def)

text \<open>
  C4, as stated, where a \<^verbatim>\<open>connect()\<close> succeeds without a reset: the first transport
  closes and the reconnect timer opens a second one, both connect, and the first closes
  again, which counts one attempt. \<^verbatim>\<open>connect()\<close> now finds the second transport connected
  and resolves at once, and the counter is still 1.
\<close>

theorem connect_without_reset_counterexample:
  "fst (connect (run initialService
      [CallConnect, Open 0, Close 0 ''transport close'', Fire 1, Open 1, Open 0,
       Close 0 ''transport close''])) = Done
   \<and> reconnectAttempts (snd (connect (run initialService
      [CallConnect, Open 0, Close 0 ''transport close'', Fire 1, Open 1, Open 0,
       Close 0 ''transport close'']))) = 1"
  by (simp add: service_eval)

text \<open>
  C4, amended: an unexpected close while fewer than 5 attempts are counted increments the
  counter and schedules one reconnect timer of 5000 ms. Starting from a counter of 0, five
  unexpected closes in a row bring the counter to 5 with five attempts scheduled, and
  whatever happens after them, as long as no transport has its \<^verbatim>\<open>connect\<close> event,
  schedules no further attempt. The counter is set to 0 by the \<^verbatim>\<open>connect\<close> event of a
  transport, the event that resolves a pending \<^verbatim>\<open>connect()\<close>; a call of
  \<^verbatim>\<open>connect()\<close> itself leaves the counter as it is, also when it resolves at once.
\<close>

theorem reconnection_bound:
  "(n < length (transports s) \<and> reason \<noteq> ''io client disconnect'' \<and> reconnectAttempts s < 5
      \<longrightarrow> reconnectAttempts (step s (Close n reason)) = reconnectAttempts s + 1
          \<and> timers (step s (Close n reason)) = timers s @ [(Reconnect, 5000)])
   \<and> (reconnectAttempts s = 0 \<and> length cs = 5 \<and> (\<forall>e\<in>set cs. unexpectedClose s e)
        \<and> (\<forall>e\<in>set es. \<not> is_Open e)
      \<longrightarrow> reconnectAttempts (run s cs) = 5
          \<and> reconnectsScheduled (run s cs) = reconnectsScheduled s + 5
          \<and> reconnectsScheduled (run s (cs @ es)) = reconnectsScheduled s + 5)
   \<and> (n < length (transports s) \<longrightarrow> reconnectAttempts (step s (Open n)) = 0)
   \<and> (n < length (transports s) \<and> promise (transports s ! n) = Pending
      \<longrightarrow> promise (transports (step s (Open n)) ! n) = Resolved)
   \<and> reconnectAttempts (snd (connect s)) = reconnectAttempts s"
proof (intro conjI impI)
  assume "n < length (transports s) \<and> reason \<noteq> ''io client disconnect'' \<and> reconnectAttempts s < 5"
  then show "reconnectAttempts (step s (Close n reason)) = reconnectAttempts s + 1"
    and "timers (step s (Close n reason)) = timers s @ [(Reconnect, 5000)]"
    using close_step [of n s reason] by simp_all
next
  assume a: "reconnectAttempts s = 0 \<and> length cs = 5 \<and> (\<forall>e\<in>set cs. unexpectedClose s e)
        \<and> (\<forall>e\<in>set es. \<not> is_Open e)"
  then have five: "reconnectAttempts (run s cs) = 5"
    using closes_run [of cs s] by simp
  have "\<forall>e\<in>set cs. \<not> is_Open e" using a unexpectedClose_not_Open by blast
  then have sched: "reconnectsScheduled (run s cs) = reconnectsScheduled s + 5"
    using run_counts [of cs s] a five by simp
  have "reconnectAttempts (run (run s cs) es) \<le> 5
     \<and> reconnectAttempts (run s cs) \<le> reconnectAttempts (run (run s cs) es)
     \<and> reconnectsScheduled (run (run s cs) es) + reconnectAttempts (run s cs)
         = reconnectsScheduled (run s cs) + reconnectAttempts (run (run s cs) es)"
    using run_counts [of es "run s cs"] a five by simp
  then have after: "reconnectsScheduled (run s (cs @ es)) = reconnectsScheduled s + 5"
    using five sched by (simp add: run_append)
  show "reconnectAttempts (run s cs) = 5" by (rule five)
  show "reconnectsScheduled (run s cs) = reconnectsScheduled s + 5" by (rule sched)
  show "reconnectsScheduled (run s (cs @ es)) = reconnectsScheduled s + 5" by (rule after)
next
  assume "n < length (transports s)"
  then show "reconnectAttempts (step s (Open n)) = 0"
    by (simp add: onConnect_def settle_attempts)
next
  assume "n < length (transports s) \<and> promise (transports s ! n) = Pending"
  then show "promise (transports (step s (Open n)) ! n) = Resolved"
    using open_resolves [of n s] by simp
next
  show "reconnectAttempts (snd (connect s)) = reconnectAttempts s"
    by (rule connect_attempts)
qed

theorem reconnection_bound_witness:
  "reconnectAttempts (step connectedService (Close 0 ''transport close'')) = 1
   \<and> timers (step connectedService (Close 0 ''transport close''))
       = [(ConnectTimeout 0, 10000), (Reconnect, 5000)]
   \<and> reconnectAttempts (run connectedService (replicate 5 (Close 0 ''transport close''))) = 5
   \<and> reconnectsScheduled (run connectedService (replicate 5 (Close 0 ''transport close'')
        @ [Close 0 ''ping timeout'', Fire 1, Close 1 ''transport error''])) = 5
   \<and> reconnectAttempts (step connectedService (Open 0)) = 0
   \<and> promise (transports (step (run initialService [CallConnect]) (Open 0)) ! 0) = Resolved
   \<and> reconnectAttempts (snd (connect connectedService)) = 0"
  using reconnection_bound [of 0 connectedService "''transport close''"
          "replicate 5 (Close 0 ''transport close'')"
          "[Close 0 ''ping timeout'', Fire 1, Close 1 ''transport error'']"]
    reconnection_bound [of 0 "run initialService [CallConnect]"]
  by (simp add: connectedService_eq connecting_pending unexpectedClose_def
        reconnectsScheduled_def connect_def socketConnected_def)

section \<open>The synthetic feed timer\<close>














end
